theory Spec2Isabelle
  imports Complex_Main "HOL-Library.Sublist"
begin

section \<open>Outfit generation of the Mazzura backend (src/main.py, src/schemas.py)\<close>

subsection \<open>Strings\<close>

text \<open>
  A Python \<^verbatim>\<open>str\<close> is modelled as a \<^typ>\<open>string\<close>: the bytes of its UTF-8 encoding, on
  which emptiness, equality and the occurrence of one text inside another are what they are
  on the code points.

  \<^verbatim>\<open>str.lower()\<close> is Unicode-aware: it changes the capitals of every script, not only
  \<open>A\<close>..\<open>Z\<close>, and its tables are not part of the sources. It is a parameter \<open>py_lower\<close> of
  the model, a function from strings to strings. The model fixes one fact about it:
  \<^verbatim>\<open>"".lower()\<close> is \<^verbatim>\<open>""\<close>.
\<close>

definition lower :: "(string \<Rightarrow> string) \<Rightarrow> string \<Rightarrow> string" where
  "lower py_lower s = (if s = [] then [] else py_lower s)"

text \<open>\<^verbatim>\<open>a in b\<close> on two strings: \<open>a\<close> occurs in \<open>b\<close> as a contiguous run.\<close>

fun str_in :: "string \<Rightarrow> string \<Rightarrow> bool" where
  "str_in a [] = (a = [])"
| "str_in a (c # cs) = (prefix a (c # cs) \<or> str_in a cs)"

text \<open>\<^verbatim>\<open>v or d\<close> where \<open>v\<close> is \<^verbatim>\<open>None\<close> or a string, resp. \<^verbatim>\<open>None\<close> or an integer:
  \<^verbatim>\<open>None\<close>, the empty string and \<open>0\<close> are falsy.\<close>

definition str_or :: "string option \<Rightarrow> string \<Rightarrow> string" where
  "str_or v d = (case v of None \<Rightarrow> d | Some s \<Rightarrow> if s = [] then d else s)"

definition int_or :: "int option \<Rightarrow> int \<Rightarrow> int" where
  "int_or v d = (case v of None \<Rightarrow> d | Some n \<Rightarrow> if n = 0 then d else n)"

subsection \<open>Data model\<close>

text \<open>
  Values held in a stored document, as far as the schema of wardrobe items has them. A
  price is a Python float; the code only copies it, and a real number stands for it.
\<close>

datatype pyval =
    PNone
  | PStr string
  | PInt int
  | PFloat real
  | PList "pyval list"
  | PObjectId string

type_synonym attrs = "(string \<times> pyval) list"

text \<open>
  A document of the collection \<^verbatim>\<open>wardrobeitem\<close>. Documents enter the collection through
  \<^verbatim>\<open>add_wardrobe_item\<close> only, which takes a validated \<^verbatim>\<open>Wardrobeitem\<close> (schemas.py): the
  record has the fields of that class with their declared types, and \<^verbatim>\<open>_id\<close>, which the
  store assigns. \<open>None\<close> is Python's \<^verbatim>\<open>None\<close>. \<^verbatim>\<open>category\<close> is optional here, wider than
  the schema, because the code reads it with \<^verbatim>\<open>it.get("category") or ""\<close>; \<^verbatim>\<open>tags\<close> is
  always a list (\<^verbatim>\<open>default_factory=list\<close>), so the default of \<^verbatim>\<open>i.get("tags", [])\<close> is
  never used.
\<close>

record wardrobe_doc =
  oid :: string
  owner_email :: string
  name :: string
  category :: "string option"
  color :: "string option"
  size_label :: "string option"
  image_url :: "string option"
  brand :: "string option"
  price :: "real option"
  tags :: "string list"
  warmth :: "int option"

definition opt_str :: "string option \<Rightarrow> pyval" where
  "opt_str v = (case v of None \<Rightarrow> PNone | Some s \<Rightarrow> PStr s)"

text \<open>The document as the dict the code holds: \<^verbatim>\<open>sel.items()\<close>.\<close>

definition doc_items :: "wardrobe_doc \<Rightarrow> attrs" where
  "doc_items d =
     [(''_id'', PObjectId (oid d)),
      (''owner_email'', PStr (owner_email d)),
      (''name'', PStr (name d)),
      (''category'', opt_str (category d)),
      (''color'', opt_str (color d)),
      (''size'', opt_str (size_label d)),
      (''image_url'', opt_str (image_url d)),
      (''brand'', opt_str (brand d)),
      (''price'', (case price d of None \<Rightarrow> PNone | Some p \<Rightarrow> PFloat p)),
      (''tags'', PList (map PStr (tags d))),
      (''warmth'', (case warmth d of None \<Rightarrow> PNone | Some n \<Rightarrow> PInt n))]"

text \<open>class \<^verbatim>\<open>OutfitRequest\<close> (main.py) and class \<^verbatim>\<open>Outfit\<close> (schemas.py).\<close>

record OutfitRequest =
  email :: string
  mood :: "string option"
  weather :: "string option"
  event :: "string option"

record Outfit =
  outfit_owner_email :: string
  outfit_title :: string
  outfit_items :: "attrs list"
  outfit_mood :: "string option"
  outfit_weather :: "string option"
  outfit_event :: "string option"

text \<open>\<^verbatim>\<open>HTTPException(status_code, detail)\<close>.\<close>

datatype http_error = HTTPException nat string

text \<open>
  \<^verbatim>\<open>xs[0]\<close>. On an empty list Python raises \<^verbatim>\<open>IndexError\<close>, which the handler
  \<^verbatim>\<open>except Exception as e\<close> of \<^verbatim>\<open>generate_outfit\<close> turns into status 500 with the
  exception's text.
\<close>

definition first_of :: "'a list \<Rightarrow> http_error + 'a" where
  "first_of xs =
     (case xs of [] \<Rightarrow> Inl (HTTPException 500 ''list index out of range'') | x # _ \<Rightarrow> Inr x)"

subsection \<open>The store\<close>

record database =
  wardrobeitem :: "wardrobe_doc list"
  outfit :: "Outfit list"

text \<open>
  Modelled from the spec: module \<^verbatim>\<open>database\<close> (\<^verbatim>\<open>get_documents\<close>, \<^verbatim>\<open>create_document\<close>)
  is not part of the sources. The Item Repository "returns all wardrobe items owned by a
  given user identifier"; the Outfit Store "persists the resulting outfit record and
  returns an identifier". The identifier is the position of the new record.
\<close>

definition get_documents :: "database \<Rightarrow> string \<Rightarrow> wardrobe_doc list" where
  "get_documents db owner = filter (\<lambda>d. owner_email d = owner) (wardrobeitem db)"

definition create_document :: "database \<Rightarrow> Outfit \<Rightarrow> nat \<times> database" where
  "create_document db doc = (length (outfit db), db\<lparr>outfit := outfit db @ [doc]\<rparr>)"

subsection \<open>Categorisation (main.py, lines 153-157)\<close>

type_synonym buckets = "string \<rightharpoonup> wardrobe_doc list"

text \<open>\<^verbatim>\<open>by_cat.get(cat, [])\<close> and \<^verbatim>\<open>by_cat.setdefault(cat, []).append(it)\<close>.\<close>

definition get_list :: "buckets \<Rightarrow> string \<Rightarrow> wardrobe_doc list" where
  "get_list by_cat cat = (case by_cat cat of None \<Rightarrow> [] | Some l \<Rightarrow> l)"

definition setdefault_append :: "buckets \<Rightarrow> string \<Rightarrow> wardrobe_doc \<Rightarrow> buckets" where
  "setdefault_append by_cat cat it = by_cat(cat \<mapsto> get_list by_cat cat @ [it])"

definition cat_of :: "(string \<Rightarrow> string) \<Rightarrow> wardrobe_doc \<Rightarrow> string" where
  "cat_of lw it = lower lw (str_or (category it) '''')"

definition categorize :: "(string \<Rightarrow> string) \<Rightarrow> wardrobe_doc list \<Rightarrow> buckets" where
  "categorize lw items = foldl (\<lambda>by_cat it. setdefault_append by_cat (cat_of lw it) it) Map.empty items"

subsection \<open>Picking one item of a bucket (main.py, lines 159-177)\<close>

definition mood_match :: "(string \<Rightarrow> string) \<Rightarrow> string \<Rightarrow> wardrobe_doc \<Rightarrow> bool" where
  "mood_match lw m i \<longleftrightarrow>
     str_in (lower lw (str_or (color i) '''')) m \<or> list_ex (\<lambda>t. str_in (lower lw t) m) (tags i)"

definition warmth_or_0 :: "wardrobe_doc \<Rightarrow> int" where
  "warmth_or_0 x = int_or (warmth x) 0"

text \<open>
  The two blocks of \<^verbatim>\<open>pick_from\<close> that may return. \<open>None\<close> means that the block fell
  through to the code after it; \<open>Some r\<close> that it returned \<open>r\<close>. \<^verbatim>\<open>sorted\<close> is Python's
  stable sort by key, as \<^const>\<open>sort_key\<close> is.
\<close>

definition mood_bias :: "(string \<Rightarrow> string) \<Rightarrow> OutfitRequest \<Rightarrow> wardrobe_doc list \<Rightarrow> (http_error + wardrobe_doc) option" where
  "mood_bias lw req cat_list =
     (case mood req of
        None \<Rightarrow> None
      | Some m \<Rightarrow>
          if m = [] then None
          else let colored = filter (mood_match lw (lower lw m)) cat_list
               in if colored \<noteq> [] then Some (first_of colored) else None)"

definition weather_bias :: "(string \<Rightarrow> string) \<Rightarrow> OutfitRequest \<Rightarrow> wardrobe_doc list \<Rightarrow> (http_error + wardrobe_doc) option" where
  "weather_bias lw req cat_list =
     (case weather req of
        None \<Rightarrow> None
      | Some w0 \<Rightarrow>
          if w0 = [] then None
          else let w = lower lw w0 in
            if w \<in> set [''cold'', ''chilly'']
            then Some (first_of (sort_key (\<lambda>x. - warmth_or_0 x) cat_list))
            else if w \<in> set [''hot'', ''warm'']
            then Some (first_of (sort_key (\<lambda>x. warmth_or_0 x) cat_list))
            else None)"

text \<open>\<^verbatim>\<open>return xs[0]\<close> inside \<^verbatim>\<open>pick_from\<close>: the item, or the error raised by the index.\<close>

definition returned :: "http_error + wardrobe_doc \<Rightarrow> http_error + wardrobe_doc option" where
  "returned r = (case r of Inl e \<Rightarrow> Inl e | Inr x \<Rightarrow> Inr (Some x))"

definition pick_from :: "(string \<Rightarrow> string) \<Rightarrow> OutfitRequest \<Rightarrow> wardrobe_doc list \<Rightarrow> http_error + wardrobe_doc option" where
  "pick_from lw req cat_list =
     (if cat_list = [] then Inr None
      else case mood_bias lw req cat_list of
             Some r \<Rightarrow> returned r
           | None \<Rightarrow>
               (case weather_bias lw req cat_list of
                  Some r \<Rightarrow> returned r
                | None \<Rightarrow> returned (first_of cat_list)))"

subsection \<open>Assembling the outfit (main.py, lines 147-207)\<close>

text \<open>
  The dict comprehension \<^verbatim>\<open>{k: (str(v) if k == "_id" else v) for k, v in sel.items() if k != "_id"}\<close>.
  Python's \<^verbatim>\<open>str\<close> is a parameter of the model; the filter keeps it from ever being
  applied (\<open>snapshot_filter\<close> below).
\<close>

definition snapshot :: "(pyval \<Rightarrow> pyval) \<Rightarrow> attrs \<Rightarrow> attrs" where
  "snapshot py_str sel =
     map (\<lambda>(k, v). (k, if k = ''_id'' then py_str v else v)) (filter (\<lambda>(k, v). k \<noteq> ''_id'') sel)"

text \<open>\<^verbatim>\<open>if sel: selected.append(...)\<close>: \<^verbatim>\<open>None\<close> and the empty dict are falsy.\<close>

definition add_selected :: "(pyval \<Rightarrow> pyval) \<Rightarrow> wardrobe_doc option \<Rightarrow> attrs list \<Rightarrow> attrs list" where
  "add_selected py_str sel selected =
     (case sel of
        None \<Rightarrow> selected
      | Some d \<Rightarrow> if doc_items d = [] then selected else selected @ [snapshot py_str (doc_items d)])"

fun select_slots ::
  "(string \<Rightarrow> string) \<Rightarrow> (pyval \<Rightarrow> pyval) \<Rightarrow> OutfitRequest \<Rightarrow> buckets \<Rightarrow> string list \<Rightarrow> attrs list \<Rightarrow> http_error + attrs list" where
  "select_slots lw py_str req by_cat [] selected = Inr selected"
| "select_slots lw py_str req by_cat (cat # cats) selected =
     (case pick_from lw req (get_list by_cat cat) of
        Inl e \<Rightarrow> Inl e
      | Inr sel \<Rightarrow> select_slots lw py_str req by_cat cats (add_selected py_str sel selected))"

definition is_cold :: "(string \<Rightarrow> string) \<Rightarrow> OutfitRequest \<Rightarrow> bool" where
  "is_cold lw req \<longleftrightarrow>
     (case weather req of None \<Rightarrow> False | Some w \<Rightarrow> w \<noteq> [] \<and> lower lw w \<in> set [''cold'', ''chilly''])"

definition select_outerwear ::
  "(string \<Rightarrow> string) \<Rightarrow> (pyval \<Rightarrow> pyval) \<Rightarrow> OutfitRequest \<Rightarrow> buckets \<Rightarrow> attrs list \<Rightarrow> http_error + attrs list" where
  "select_outerwear lw py_str req by_cat selected =
     (if is_cold lw req
      then case pick_from lw req (get_list by_cat ''outerwear'') of
             Inl e \<Rightarrow> Inl e
           | Inr outer \<Rightarrow> Inr (add_selected py_str outer selected)
      else Inr selected)"

definition assemble ::
  "(string \<Rightarrow> string) \<Rightarrow> (pyval \<Rightarrow> pyval) \<Rightarrow> OutfitRequest \<Rightarrow> buckets \<Rightarrow> http_error + attrs list" where
  "assemble lw py_str req by_cat =
     (case select_slots lw py_str req by_cat [''top'', ''bottom'', ''footwear''] [] of
        Inl e \<Rightarrow> Inl e
      | Inr selected \<Rightarrow> select_outerwear lw py_str req by_cat selected)"

definition title_of :: "OutfitRequest \<Rightarrow> string" where
  "title_of req =
     ''Auto outfit - '' @ str_or (mood req) ''style'' @ '' / '' @ str_or (weather req) ''weather''"

record response =
  resp_id :: nat
  resp_items :: "attrs list"
  resp_title :: string

definition generate_outfit ::
  "(string \<Rightarrow> string) \<Rightarrow> (pyval \<Rightarrow> pyval) \<Rightarrow> database \<Rightarrow> OutfitRequest \<Rightarrow> (http_error + response) \<times> database" where
  "generate_outfit lw py_str db req =
     (let items = get_documents db (email req) in
      if items = [] then (Inl (HTTPException 404 ''No wardrobe items found''), db)
      else
        let by_cat = categorize lw items in
        case assemble lw py_str req by_cat of
          Inl e \<Rightarrow> (Inl e, db)
        | Inr selected \<Rightarrow>
            if selected = []
            then (Inl (HTTPException 400 ''Could not compose an outfit from wardrobe''), db)
            else
              let outfit_doc =
                    \<lparr>outfit_owner_email = email req,
                     outfit_title = title_of req,
                     outfit_items = selected,
                     outfit_mood = mood req,
                     outfit_weather = weather req,
                     outfit_event = event req\<rparr>;
                  (inserted_id, db') = create_document db outfit_doc
              in (Inr \<lparr>resp_id = inserted_id, resp_items = selected,
                       resp_title = outfit_title outfit_doc\<rparr>, db'))"

subsection \<open>The specification's notions\<close>

text \<open>
  These definitions follow the words of the specification, not the code; the theorems
  below compare the code with them.

  Mood match: "its color (lower-cased) is a substring of the mood text, OR any of its tags
  (lower-cased) is a substring of the mood text", the mood text being lower-cased.
\<close>

definition spec_mood_match :: "(string \<Rightarrow> string) \<Rightarrow> string \<Rightarrow> wardrobe_doc \<Rightarrow> bool" where
  "spec_mood_match lw mood_text i \<longleftrightarrow>
     sublist (case color i of None \<Rightarrow> [] | Some c \<Rightarrow> lower lw c) (lower lw mood_text) \<or>
     (\<exists>t \<in> set (tags i). sublist (lower lw t) (lower lw mood_text))"

text \<open>"warmth defaults to 0 when absent".\<close>

definition spec_warmth :: "wardrobe_doc \<Rightarrow> int" where
  "spec_warmth x = (case warmth x of None \<Rightarrow> 0 | Some n \<Rightarrow> n)"

text \<open>The item with the highest (lowest) score, "ties broken by original order".\<close>

definition first_highest :: "('a \<Rightarrow> int) \<Rightarrow> 'a list \<Rightarrow> 'a \<Rightarrow> bool" where
  "first_highest f xs r \<longleftrightarrow>
     (\<exists>pre post. xs = pre @ r # post \<and> (\<forall>x \<in> set pre. f x < f r) \<and> (\<forall>x \<in> set post. f x \<le> f r))"

definition first_lowest :: "('a \<Rightarrow> int) \<Rightarrow> 'a list \<Rightarrow> 'a \<Rightarrow> bool" where
  "first_lowest f xs r \<longleftrightarrow>
     (\<exists>pre post. xs = pre @ r # post \<and> (\<forall>x \<in> set pre. f r < f x) \<and> (\<forall>x \<in> set post. f r \<le> f x))"

text \<open>"weather lower-cases to cold or chilly", resp. "hot or warm".\<close>

definition spec_cold :: "(string \<Rightarrow> string) \<Rightarrow> OutfitRequest \<Rightarrow> bool" where
  "spec_cold lw req \<longleftrightarrow> (\<exists>w. weather req = Some w \<and> (lower lw w = ''cold'' \<or> lower lw w = ''chilly''))"

definition spec_hot :: "(string \<Rightarrow> string) \<Rightarrow> OutfitRequest \<Rightarrow> bool" where
  "spec_hot lw req \<longleftrightarrow> (\<exists>w. weather req = Some w \<and> (lower lw w = ''hot'' \<or> lower lw w = ''warm''))"

text \<open>Bucket: "the set of wardrobe items sharing one normalized category label", in the
  order of the wardrobe.\<close>

definition spec_bucket :: "(string \<Rightarrow> string) \<Rightarrow> wardrobe_doc list \<Rightarrow> string \<Rightarrow> wardrobe_doc list" where
  "spec_bucket lw items c = filter (\<lambda>it. cat_of lw it = c) items"

text \<open>The contribution of one slot to the selection: the item Pick-one yields on the
  slot's bucket, nothing when it yields none.\<close>

definition spec_slot :: "(string \<Rightarrow> string) \<Rightarrow> OutfitRequest \<Rightarrow> wardrobe_doc list \<Rightarrow> string \<Rightarrow> wardrobe_doc list" where
  "spec_slot lw req items c =
     (case pick_from lw req (spec_bucket lw items c) of Inr (Some d) \<Rightarrow> [d] | _ \<Rightarrow> [])"

text \<open>The selection: slots "in fixed order: top, bottom, footwear", then, "only if weather
  lower-cases to cold or chilly", the outerwear slot.\<close>

definition spec_selection :: "(string \<Rightarrow> string) \<Rightarrow> OutfitRequest \<Rightarrow> wardrobe_doc list \<Rightarrow> wardrobe_doc list" where
  "spec_selection lw req items =
     spec_slot lw req items ''top'' @ spec_slot lw req items ''bottom'' @ spec_slot lw req items ''footwear'' @
     (if spec_cold lw req then spec_slot lw req items ''outerwear'' else [])"

text \<open>Snapshot: "an item's attribute set copied into an outfit record, with internal
  identifiers removed".\<close>

definition spec_snapshot_of :: "wardrobe_doc \<Rightarrow> attrs \<Rightarrow> bool" where
  "spec_snapshot_of d s \<longleftrightarrow>
     ''_id'' \<notin> fst ` set s \<and> (\<forall>k. k \<noteq> ''_id'' \<longrightarrow> map_of s k = map_of (doc_items d) k)"

subsection \<open>Example data\<close>

definition ex_item :: "string \<Rightarrow> string \<Rightarrow> string option \<Rightarrow> string list \<Rightarrow> int option \<Rightarrow> wardrobe_doc" where
  "ex_item i cat col tgs w =
     \<lparr>oid = i, owner_email = ''ann@example.org'', name = i, category = Some cat, color = col,
      size_label = None, image_url = None, brand = None, price = None, tags = tgs, warmth = w\<rparr>"

definition ex_req :: "string option \<Rightarrow> string option \<Rightarrow> OutfitRequest" where
  "ex_req m w = \<lparr>email = ''ann@example.org'', mood = m, weather = w, event = None\<rparr>"

text \<open>
  The examples instantiate \<open>py_lower\<close>. All their texts are ASCII (every byte is below 128),
  and on such a text \<^verbatim>\<open>str.lower()\<close> moves the capitals \<open>A\<close>..\<open>Z\<close> (codes 65..90) to
  \<open>a\<close>..\<open>z\<close> (32 is added to the code, which sets bit 5 there) and keeps the rest.
\<close>

definition ex_lower_char :: "char \<Rightarrow> char" where
  "ex_lower_char c =
     (let n = (of_char c :: nat) in
      if 65 \<le> n \<and> n \<le> 90
      then (case c of Char b0 b1 b2 b3 b4 b5 b6 b7 \<Rightarrow> Char b0 b1 b2 b3 b4 True b6 b7)
      else c)"

definition ex_lower :: "string \<Rightarrow> string" where
  "ex_lower s = map ex_lower_char s"

text \<open>A stand-in for Python's \<^verbatim>\<open>str\<close>: the hexadecimal text of an identifier.\<close>

definition ex_str :: "pyval \<Rightarrow> pyval" where
  "ex_str v = (case v of PObjectId h \<Rightarrow> PStr h | _ \<Rightarrow> v)"

definition ex_wardrobe :: "wardrobe_doc list" where
  "ex_wardrobe =
     [ex_item ''a1'' ''accessory'' (Some ''gold'') [] None,
      ex_item ''t1'' ''Top'' (Some ''Red'') [''casual''] (Some 2),
      ex_item ''o1'' ''Outerwear'' (Some ''grey'') [] (Some 9),
      ex_item ''t2'' ''top'' (Some ''blue'') [''formal''] (Some 8),
      ex_item ''f1'' ''FOOTWEAR'' None [''sport''] (Some 3),
      ex_item ''b1'' ''bottom'' (Some ''black'') [] None]"

definition ex_db :: "wardrobe_doc list \<Rightarrow> database" where
  "ex_db items = \<lparr>wardrobeitem = items, outfit = []\<rparr>"

section \<open>Auxiliary facts\<close>

lemma ex_lower_char_add:
  "ex_lower_char c =
     (if 65 \<le> (of_char c :: nat) \<and> (of_char c :: nat) \<le> 90 then char_of ((of_char c :: nat) + 32) else c)"
proof (cases c)
  case (Char b0 b1 b2 b3 b4 b5 b6 b7)
  then show ?thesis
    by (cases b0; cases b1; cases b2; cases b3; cases b4; cases b5; cases b6; cases b7;
        simp add: ex_lower_char_def char_of_def bit_Suc bit_0)
qed

lemma lower_Nil [simp]: "lower lw [] = []"
  by (simp add: lower_def)

lemma str_in_sublist: "str_in a b \<longleftrightarrow> sublist a b"
  by (induction b) (auto simp: sublist_Cons_right)

lemma mood_match_spec: "mood_match lw (lower lw m) i \<longleftrightarrow> spec_mood_match lw m i"
  by (auto simp: mood_match_def spec_mood_match_def str_in_sublist list_ex_iff str_or_def split: option.splits)

lemma warmth_or_0_spec: "warmth_or_0 x = spec_warmth x"
  by (simp add: warmth_or_0_def spec_warmth_def int_or_def split: option.splits)

lemma is_cold_spec: "is_cold lw req \<longleftrightarrow> spec_cold lw req"
  by (auto simp: is_cold_def spec_cold_def split: option.splits)

lemma first_of_nonempty: "xs \<noteq> [] \<Longrightarrow> first_of xs = Inr (hd xs)"
  by (cases xs) (simp_all add: first_of_def)

lemma sort_key_Nil_iff: "sort_key f xs = [] \<longleftrightarrow> xs = []"
  by (metis length_sort list.size(3) length_0_conv)

lemma hd_insort_key: "hd (insort_key f x ys) = (if ys = [] then x else if f x \<le> f (hd ys) then x else hd ys)"
  by (cases ys) auto

lemma hd_sort_key: "xs \<noteq> [] \<Longrightarrow> hd (sort_key f xs) = arg_min_list f xs"
proof (induction f xs rule: arg_min_list.induct)
  case (1 f x)
  then show ?case by simp
next
  case (2 f x y zs)
  then show ?case by (simp add: hd_insort_key sort_key_Nil_iff Let_def del: insort_key.simps)
next
  case (3 f)
  then show ?case by simp
qed

lemma arg_min_list_first:
  "xs \<noteq> [] \<Longrightarrow> \<exists>pre post. xs = pre @ arg_min_list f xs # post \<and>
     (\<forall>x\<in>set pre. f (arg_min_list f xs) < f x) \<and> (\<forall>x\<in>set post. f (arg_min_list f xs) \<le> f x)"
proof (induction f xs rule: arg_min_list.induct)
  case (1 f x)
  show ?case by (intro exI[of _ "[]"]) simp
next
  case (2 f x y zs)
  let ?m = "arg_min_list f (y # zs)"
  from 2 obtain pre post where d: "y # zs = pre @ ?m # post"
    "\<forall>x\<in>set pre. f ?m < f x" "\<forall>x\<in>set post. f ?m \<le> f x" by auto
  show ?case
  proof (cases "f x \<le> f ?m")
    case True
    have "\<forall>z\<in>set (y # zs). f x \<le> f z"
      using d True by (metis Un_iff insert_iff le_less_trans less_imp_le list.simps(15) order_trans set_append)
    then show ?thesis using True
      by (intro exI[of _ "[]"] exI[of _ "y # zs"]) (simp add: Let_def)
  next
    case False
    then show ?thesis using d
      by (intro exI[of _ "x # pre"] exI[of _ post]) (auto simp: Let_def)
  qed
next
  case (3 f)
  then show ?case by simp
qed

lemma sorted_first_lowest:
  assumes "xs \<noteq> []"
  shows "\<exists>r. first_of (sort_key f xs) = Inr r \<and> first_lowest f xs r"
  using assms arg_min_list_first[OF assms, of f]
  by (simp add: first_of_nonempty sort_key_Nil_iff hd_sort_key first_lowest_def)

lemma sorted_first_highest:
  assumes "xs \<noteq> []"
  shows "\<exists>r. first_of (sort_key (\<lambda>x. - f x) xs) = Inr r \<and> first_highest f xs r"
  using assms arg_min_list_first[OF assms, of "\<lambda>x. - f x"]
  by (simp add: first_of_nonempty sort_key_Nil_iff hd_sort_key first_highest_def)

lemma get_list_foldl:
  "get_list (foldl (\<lambda>by_cat it. setdefault_append by_cat (cat_of lw it) it) m items) c =
     get_list m c @ filter (\<lambda>it. cat_of lw it = c) items"
  by (induction items arbitrary: m) (auto simp: setdefault_append_def get_list_def)

lemma get_list_categorize: "get_list (categorize lw items) c = spec_bucket lw items c"
  unfolding categorize_def get_list_foldl spec_bucket_def by (simp add: get_list_def)


lemma first_of_filter:
  "first_of (filter P xs) =
     (case find P xs of None \<Rightarrow> Inl (HTTPException 500 ''list index out of range'') | Some r \<Rightarrow> Inr r)"
  by (induction xs) (simp_all add: first_of_def)

lemma filter_Nil_find: "filter P xs = [] \<longleftrightarrow> find P xs = None"
  by (induction xs) simp_all

lemma find_spec_mood_match: "find (mood_match lw (lower lw m)) b = find (spec_mood_match lw m) b"
  by (induction b) (simp_all add: mood_match_spec)

lemma mood_bias_eq:
  "mood_bias lw req b =
     (case mood req of
        None \<Rightarrow> None
      | Some m \<Rightarrow> if m = [] then None else map_option Inr (find (spec_mood_match lw m) b))"
  by (simp add: mood_bias_def Let_def first_of_filter filter_Nil_find find_spec_mood_match
      split: option.splits)

lemma mood_bias_hit:
  "mood req = Some m \<Longrightarrow> m \<noteq> [] \<Longrightarrow> find (spec_mood_match lw m) b = Some r \<Longrightarrow>
   mood_bias lw req b = Some (Inr r)"
  by (simp add: mood_bias_eq)

lemma mood_bias_miss:
  "\<forall>m. mood req = Some m \<and> m \<noteq> [] \<longrightarrow> find (spec_mood_match lw m) b = None \<Longrightarrow>
   mood_bias lw req b = None"
  by (simp add: mood_bias_eq split: option.splits)

lemma weather_bias_cold:
  assumes "spec_cold lw req" "b \<noteq> []"
  shows "\<exists>r. weather_bias lw req b = Some (Inr r) \<and> first_highest spec_warmth b r"
proof -
  from assms(1) obtain w where w: "weather req = Some w" "lower lw w = ''cold'' \<or> lower lw w = ''chilly''"
    by (auto simp: spec_cold_def)
  then have ne: "w \<noteq> []" by auto
  from sorted_first_highest[OF assms(2), of warmth_or_0]
  obtain r where "first_of (sort_key (\<lambda>x. - warmth_or_0 x) b) = Inr r" "first_highest warmth_or_0 b r"
    by blast
  moreover have "warmth_or_0 = spec_warmth" by (rule ext) (rule warmth_or_0_spec)
  ultimately show ?thesis using w ne by (auto simp: weather_bias_def)
qed

lemma weather_bias_hot:
  assumes "spec_hot lw req" "b \<noteq> []"
  shows "\<exists>r. weather_bias lw req b = Some (Inr r) \<and> first_lowest spec_warmth b r"
proof -
  from assms(1) obtain w where w: "weather req = Some w" "lower lw w = ''hot'' \<or> lower lw w = ''warm''"
    by (auto simp: spec_hot_def)
  then have ne: "w \<noteq> []" by auto
  from sorted_first_lowest[OF assms(2), of warmth_or_0]
  obtain r where "first_of (sort_key warmth_or_0 b) = Inr r" "first_lowest warmth_or_0 b r"
    by blast
  moreover have "warmth_or_0 = spec_warmth" by (rule ext) (rule warmth_or_0_spec)
  ultimately show ?thesis using w ne by (auto simp: weather_bias_def)
qed

lemma weather_bias_none:
  "\<not> spec_cold lw req \<Longrightarrow> \<not> spec_hot lw req \<Longrightarrow> weather_bias lw req b = None"
  by (auto simp: weather_bias_def spec_cold_def spec_hot_def split: option.splits)

lemma pick_from_mood_hit:
  assumes "mood req = Some m" "m \<noteq> []" "find (spec_mood_match lw m) b = Some r"
  shows "pick_from lw req b = Inr (Some r)"
proof -
  from assms(3) have "b \<noteq> []" by auto
  then show ?thesis using mood_bias_hit[OF assms] by (simp add: pick_from_def returned_def)
qed

lemma pick_from_mood_miss:
  assumes "b \<noteq> []" "\<forall>m. mood req = Some m \<and> m \<noteq> [] \<longrightarrow> find (spec_mood_match lw m) b = None"
  shows "pick_from lw req b =
     (case weather_bias lw req b of Some r \<Rightarrow> returned r | None \<Rightarrow> Inr (Some (hd b)))"
  using assms(1) mood_bias_miss[OF assms(2)]
  by (simp add: pick_from_def first_of_nonempty returned_def split: option.splits)

subsection \<open>The selection computed by the code\<close>

lemma pick_from_Nil: "pick_from lw req [] = Inr None"
  by (simp add: pick_from_def)

lemma first_of_sort_key:
  fixes f :: "'a \<Rightarrow> int"
  shows "b \<noteq> [] \<Longrightarrow> \<exists>r \<in> set b. first_of (sort_key f b) = Inr r"
  using sorted_first_lowest[of b f] by (auto simp: first_lowest_def)

lemma pick_from_nonempty:
  assumes "b \<noteq> []"
  shows "\<exists>r \<in> set b. pick_from lw req b = Inr (Some r)"
proof (cases "mood_bias lw req b")
  case None
  show ?thesis
  proof (cases "weather_bias lw req b")
    case None
    with \<open>mood_bias lw req b = None\<close> assms show ?thesis
      by (simp add: pick_from_def first_of_nonempty returned_def)
  next
    case (Some r)
    then obtain f :: "wardrobe_doc \<Rightarrow> int" where "r = first_of (sort_key f b)"
      by (auto simp: weather_bias_def Let_def split: option.splits if_splits)
    with first_of_sort_key[OF assms, of f] Some \<open>mood_bias lw req b = None\<close> assms show ?thesis
      by (auto simp: pick_from_def returned_def)
  qed
next
  case (Some r)
  then obtain x where "r = Inr x" "x \<in> set b"
    by (auto simp: mood_bias_eq find_Some_iff split: option.splits if_splits)
  with Some assms show ?thesis by (auto simp: pick_from_def returned_def)
qed

lemma spec_slot_cases:
  "(spec_bucket lw items c = [] \<and> spec_slot lw req items c = []) \<or>
   (\<exists>r \<in> set (spec_bucket lw items c). spec_slot lw req items c = [r] \<and> pick_from lw req (spec_bucket lw items c) = Inr (Some r))"
proof (cases "spec_bucket lw items c = []")
  case True
  then show ?thesis by (simp add: spec_slot_def pick_from_Nil)
next
  case False
  from pick_from_nonempty[OF this, where req = req and lw = lw] show ?thesis by (auto simp: spec_slot_def)
qed

lemma spec_slot_Nil_iff: "spec_slot lw req items c = [] \<longleftrightarrow> spec_bucket lw items c = []"
  using spec_slot_cases[where items = items and c = c and req = req and lw = lw] by auto

lemma spec_slot_member:
  "d \<in> set (spec_slot lw req items c) \<Longrightarrow> d \<in> set items \<and> cat_of lw d = c"
  using spec_slot_cases[where items = items and c = c and req = req and lw = lw] by (auto simp: spec_bucket_def)

lemma doc_items_nonempty: "doc_items d \<noteq> []"
  by (simp add: doc_items_def)

lemma snapshot_filter: "snapshot py_str a = filter (\<lambda>(k, v). k \<noteq> ''_id'') a"
  by (induction a) (auto simp: snapshot_def)

lemma add_selected_slot:
  "pick_from lw req (spec_bucket lw items c) = Inr sel \<Longrightarrow>
   add_selected py_str sel selected =
     selected @ map (\<lambda>d. snapshot py_str (doc_items d)) (spec_slot lw req items c)"
  by (cases sel) (simp_all add: add_selected_def spec_slot_def doc_items_nonempty)

lemma pick_from_Inr: "\<exists>sel. pick_from lw req b = Inr sel"
  using pick_from_nonempty[where b = b and req = req and lw = lw] by (cases "b = []") (auto simp: pick_from_Nil)

lemma select_slots_eq:
  "select_slots lw py_str req (categorize lw items) cats selected =
     Inr (selected @ map (\<lambda>d. snapshot py_str (doc_items d)) (concat (map (spec_slot lw req items) cats)))"
proof (induction cats arbitrary: selected)
  case Nil
  then show ?case by simp
next
  case (Cons c cats)
  obtain sel where sel: "pick_from lw req (spec_bucket lw items c) = Inr sel"
    using pick_from_Inr by blast
  show ?case
    by (simp add: get_list_categorize sel Cons.IH add_selected_slot[OF sel])
qed

lemma select_outerwear_eq:
  "select_outerwear lw py_str req (categorize lw items) selected =
     Inr (selected @ map (\<lambda>d. snapshot py_str (doc_items d))
            (if spec_cold lw req then spec_slot lw req items ''outerwear'' else []))"
proof -
  obtain sel where sel: "pick_from lw req (spec_bucket lw items ''outerwear'') = Inr sel"
    using pick_from_Inr by blast
  show ?thesis
    by (simp add: select_outerwear_def is_cold_spec get_list_categorize sel add_selected_slot[OF sel])
qed

lemma assemble_eq:
  "assemble lw py_str req (categorize lw items) =
     Inr (map (\<lambda>d. snapshot py_str (doc_items d)) (spec_selection lw req items))"
  unfolding assemble_def select_slots_eq by (simp add: select_outerwear_eq spec_selection_def)

lemma generate_outfit_eq:
  "generate_outfit lw py_str db req =
     (let items = get_documents db (email req);
          selected = map (\<lambda>d. snapshot py_str (doc_items d)) (spec_selection lw req items)
      in if items = [] then (Inl (HTTPException 404 ''No wardrobe items found''), db)
         else if selected = []
         then (Inl (HTTPException 400 ''Could not compose an outfit from wardrobe''), db)
         else (Inr \<lparr>resp_id = length (outfit db), resp_items = selected, resp_title = title_of req\<rparr>,
               db\<lparr>outfit := outfit db @
                 [\<lparr>outfit_owner_email = email req, outfit_title = title_of req,
                   outfit_items = selected, outfit_mood = mood req,
                   outfit_weather = weather req, outfit_event = event req\<rparr>]\<rparr>))"
  by (simp add: generate_outfit_def assemble_eq create_document_def Let_def)

lemma map_of_filter_neq:
  "k \<noteq> x \<Longrightarrow> map_of (filter (\<lambda>(k', v). k' \<noteq> x) a) k = map_of a k"
  by (induction a) auto

lemma snapshot_is_spec_snapshot: "spec_snapshot_of d (snapshot py_str (doc_items d))"
  by (auto simp: spec_snapshot_of_def snapshot_filter map_of_filter_neq)

lemma find_first:
  "P i \<Longrightarrow> \<forall>x \<in> set pre. \<not> P x \<Longrightarrow> find P (pre @ i # post) = Some i"
  by (induction pre) simp_all

text \<open>Unfolding rules for evaluating the example data.\<close>

lemmas ev = ex_item_def ex_req_def ex_db_def lower_def ex_lower_def ex_lower_char_def str_or_def int_or_def
  spec_mood_match_def spec_warmth_def sublist_Cons_right spec_cold_def spec_hot_def

lemmas pick_ev = pick_from_def mood_bias_def weather_bias_def returned_def first_of_def
  warmth_or_0_def mood_match_def

lemmas gen_ev = generate_outfit_eq get_documents_def spec_selection_def spec_slot_def
  spec_bucket_def cat_of_def title_of_def ex_wardrobe_def ex_str_def snapshot_filter doc_items_def
  opt_str_def

lemma spec_selection_Nil_iff:
  "spec_selection lw req items = [] \<longleftrightarrow>
     spec_bucket lw items ''top'' = [] \<and> spec_bucket lw items ''bottom'' = [] \<and>
     spec_bucket lw items ''footwear'' = [] \<and> (spec_cold lw req \<longrightarrow> spec_bucket lw items ''outerwear'' = [])"
  by (simp add: spec_selection_def spec_slot_Nil_iff)

lemma list_all2_map_snapshot:
  "list_all2 spec_snapshot_of ds (map (\<lambda>d. snapshot py_str (doc_items d)) ds)"
  by (induction ds) (simp_all add: snapshot_is_spec_snapshot)

section \<open>Properties of the outfit selection\<close>

text \<open>
  In the theorems \<open>lw\<close> stands for \<^verbatim>\<open>str.lower\<close> and \<open>py_str\<close> for \<^verbatim>\<open>str\<close>. Nothing is
  assumed about either: each theorem holds for every function in their place, so also for
  Python's own.
\<close>

text \<open>
  C1 (as amended). Precedence of Pick-one on a non-empty bucket. If the mood is present and
  not the empty string and the bucket holds a mood match, the first mood match in bucket
  order is returned, whatever the weather is. Otherwise (mood absent, empty, or without a
  match) the weather rule applies: the first item of highest warmth for cold or chilly, the
  first item of lowest warmth for hot or warm. If neither applies, the first item of the
  bucket is returned.
\<close>

theorem pick_from_precedence:
  assumes "b \<noteq> []"
  shows "(\<forall>m r. mood req = Some m \<and> m \<noteq> [] \<and> find (spec_mood_match lw m) b = Some r \<longrightarrow>
            (\<forall>w. pick_from lw (req\<lparr>weather := w\<rparr>) b = Inr (Some r))) \<and>
         ((\<forall>m. mood req = Some m \<and> m \<noteq> [] \<longrightarrow> find (spec_mood_match lw m) b = None) \<longrightarrow>
            (spec_cold lw req \<longrightarrow> (\<exists>r. pick_from lw req b = Inr (Some r) \<and> first_highest spec_warmth b r)) \<and>
            (spec_hot lw req \<longrightarrow> (\<exists>r. pick_from lw req b = Inr (Some r) \<and> first_lowest spec_warmth b r)) \<and>
            (\<not> spec_cold lw req \<and> \<not> spec_hot lw req \<longrightarrow> pick_from lw req b = Inr (Some (hd b))))"
proof (intro conjI allI impI)
  fix m r w
  assume "mood req = Some m \<and> m \<noteq> [] \<and> find (spec_mood_match lw m) b = Some r"
  then show "pick_from lw (req\<lparr>weather := w\<rparr>) b = Inr (Some r)"
    by (intro pick_from_mood_hit[where m = m]) simp_all
next
  assume miss: "\<forall>m. mood req = Some m \<and> m \<noteq> [] \<longrightarrow> find (spec_mood_match lw m) b = None"
  note eq = pick_from_mood_miss[OF assms miss]
  {
    assume "spec_cold lw req"
    from weather_bias_cold[OF this assms]
    show "\<exists>r. pick_from lw req b = Inr (Some r) \<and> first_highest spec_warmth b r"
      by (auto simp: eq returned_def)
  next
    assume "spec_hot lw req"
    from weather_bias_hot[OF this assms]
    show "\<exists>r. pick_from lw req b = Inr (Some r) \<and> first_lowest spec_warmth b r"
      by (auto simp: eq returned_def)
  next
    assume "\<not> spec_cold lw req \<and> \<not> spec_hot lw req"
    then show "pick_from lw req b = Inr (Some (hd b))"
      by (simp add: eq weather_bias_none)
  }
qed

theorem pick_from_precedence_witness:
  "[ex_item ''t1'' ''top'' (Some ''red'') [] (Some 2), ex_item ''t2'' ''top'' (Some ''Blue'') [] (Some 8)] \<noteq> [] \<and>
   pick_from ex_lower (ex_req (Some ''Feeling blue today'') (Some ''warm''))
     [ex_item ''t1'' ''top'' (Some ''red'') [] (Some 2), ex_item ''t2'' ''top'' (Some ''Blue'') [] (Some 8)]
     = Inr (Some (ex_item ''t2'' ''top'' (Some ''Blue'') [] (Some 8))) \<and>
   pick_from ex_lower (ex_req (Some ''calm'') None)
     [ex_item ''t1'' ''top'' (Some ''red'') [] (Some 2), ex_item ''t2'' ''top'' (Some ''Blue'') [] (Some 8)]
     = Inr (Some (ex_item ''t1'' ''top'' (Some ''red'') [] (Some 2))) \<and>
   (\<exists>r. pick_from ex_lower (ex_req (Some ''calm'') (Some ''COLD''))
      [ex_item ''t1'' ''top'' (Some ''red'') [] (Some 2), ex_item ''t2'' ''top'' (Some ''Blue'') [] (Some 8)]
      = Inr (Some r) \<and>
      first_highest spec_warmth
        [ex_item ''t1'' ''top'' (Some ''red'') [] (Some 2), ex_item ''t2'' ''top'' (Some ''Blue'') [] (Some 8)] r \<and>
      r = ex_item ''t2'' ''top'' (Some ''Blue'') [] (Some 8))"
proof -
  let ?a = "ex_item ''t1'' ''top'' (Some ''red'') [] (Some 2)"
  let ?b = "ex_item ''t2'' ''top'' (Some ''Blue'') [] (Some 8)"
  let ?req = "ex_req (Some ''Feeling blue today'') None"
  let ?req2 = "ex_req (Some ''calm'') None"
  let ?req3 = "ex_req (Some ''calm'') (Some ''COLD'')"
  have ne: "[?a, ?b] \<noteq> []" by simp
  have hit: "mood ?req = Some ''Feeling blue today'' \<and> ''Feeling blue today'' \<noteq> [] \<and>
      find (spec_mood_match ex_lower ''Feeling blue today'') [?a, ?b] = Some ?b"
    by (simp add: ev)
  have miss: "\<forall>m. mood ?req2 = Some m \<and> m \<noteq> [] \<longrightarrow> find (spec_mood_match ex_lower m) [?a, ?b] = None"
    by (simp add: ev)
  have nw: "\<not> spec_cold ex_lower ?req2 \<and> \<not> spec_hot ex_lower ?req2"
    by (simp add: ev)
  have w: "?req\<lparr>weather := Some ''warm''\<rparr> = ex_req (Some ''Feeling blue today'') (Some ''warm'')"
    by (simp add: ex_req_def)
  from pick_from_precedence[OF ne, where req = "?req" and lw = ex_lower] hit
  have 1: "pick_from ex_lower (?req\<lparr>weather := Some ''warm''\<rparr>) [?a, ?b] = Inr (Some ?b)"
    by blast
  from pick_from_precedence[OF ne, where req = "?req2" and lw = ex_lower] miss nw
  have 2: "pick_from ex_lower ?req2 [?a, ?b] = Inr (Some (hd [?a, ?b]))"
    by blast
  have miss3: "\<forall>m. mood ?req3 = Some m \<and> m \<noteq> [] \<longrightarrow> find (spec_mood_match ex_lower m) [?a, ?b] = None"
    by (simp add: ev)
  have cold: "spec_cold ex_lower ?req3" by (simp add: ev)
  have p: "pick_from ex_lower ?req3 [?a, ?b] = Inr (Some ?b)" by (simp add: ev pick_ev)
  from pick_from_precedence[OF ne, where req = "?req3" and lw = ex_lower] miss3 cold
  have "\<exists>r. pick_from ex_lower ?req3 [?a, ?b] = Inr (Some r) \<and> first_highest spec_warmth [?a, ?b] r"
    by blast
  with p have 3: "\<exists>r. pick_from ex_lower ?req3 [?a, ?b] = Inr (Some r) \<and>
      first_highest spec_warmth [?a, ?b] r \<and> r = ?b"
    by auto
  show ?thesis using ne 1 2 3 unfolding w by simp
qed

text \<open>
  The mood \<open>""\<close> is present, and an item whose color is \<open>""\<close> matches it (the empty string
  occurs in it), yet \<^verbatim>\<open>if req.mood:\<close> skips the mood rule and the weather rule picks the warmer
  item.
\<close>

theorem pick_from_precedence_counterexample:
  "mood (ex_req (Some '''') (Some ''cold'')) = Some '''' \<and>
   find (spec_mood_match ex_lower '''')
     [ex_item ''t1'' ''top'' (Some '''') [] (Some 1), ex_item ''t2'' ''top'' (Some ''grey'') [] (Some 5)]
     = Some (ex_item ''t1'' ''top'' (Some '''') [] (Some 1)) \<and>
   pick_from ex_lower (ex_req (Some '''') (Some ''cold''))
     [ex_item ''t1'' ''top'' (Some '''') [] (Some 1), ex_item ''t2'' ''top'' (Some ''grey'') [] (Some 5)]
     = Inr (Some (ex_item ''t2'' ''top'' (Some ''grey'') [] (Some 5))) \<and>
   ex_item ''t2'' ''top'' (Some ''grey'') [] (Some 5) \<noteq> ex_item ''t1'' ''top'' (Some '''') [] (Some 1)"
  by (simp add: ev pick_from_def mood_bias_def weather_bias_def returned_def first_of_def
      warmth_or_0_def mood_match_def)

text \<open>
  C2. On a non-empty bucket without an applicable mood match (the mood is absent or empty,
  or no item of the bucket matches it): if the weather lower-cases to cold or chilly,
  Pick-one returns the item of highest warmth, and if it lower-cases to hot or warm, the
  item of lowest warmth; an absent warmth counts as 0, and among items of equal warmth the
  earliest in bucket order wins.
\<close>

theorem pick_from_weather:
  assumes "b \<noteq> []"
    and "\<forall>m. mood req = Some m \<and> m \<noteq> [] \<longrightarrow> (\<forall>i \<in> set b. \<not> spec_mood_match lw m i)"
  shows "(spec_cold lw req \<longrightarrow> (\<exists>r. pick_from lw req b = Inr (Some r) \<and> first_highest spec_warmth b r)) \<and>
         (spec_hot lw req \<longrightarrow> (\<exists>r. pick_from lw req b = Inr (Some r) \<and> first_lowest spec_warmth b r))"
proof -
  from assms(2) have miss: "\<forall>m. mood req = Some m \<and> m \<noteq> [] \<longrightarrow> find (spec_mood_match lw m) b = None"
    by (simp add: find_None_iff)
  note eq = pick_from_mood_miss[OF assms(1) miss]
  show ?thesis
  proof (intro conjI impI)
    assume "spec_cold lw req"
    from weather_bias_cold[OF this assms(1)]
    show "\<exists>r. pick_from lw req b = Inr (Some r) \<and> first_highest spec_warmth b r"
      by (auto simp: eq returned_def)
  next
    assume "spec_hot lw req"
    from weather_bias_hot[OF this assms(1)]
    show "\<exists>r. pick_from lw req b = Inr (Some r) \<and> first_lowest spec_warmth b r"
      by (auto simp: eq returned_def)
  qed
qed

theorem pick_from_weather_witness:
  "[ex_item ''t1'' ''top'' None [] (Some 2), ex_item ''t2'' ''top'' None [] (Some 8),
    ex_item ''t3'' ''top'' None [] (Some 5), ex_item ''t4'' ''top'' None [] (Some 8),
    ex_item ''t5'' ''top'' None [] None] \<noteq> [] \<and>
   spec_cold ex_lower (ex_req None (Some ''Cold'')) \<and>
   (\<exists>r. pick_from ex_lower (ex_req None (Some ''Cold''))
      [ex_item ''t1'' ''top'' None [] (Some 2), ex_item ''t2'' ''top'' None [] (Some 8),
       ex_item ''t3'' ''top'' None [] (Some 5), ex_item ''t4'' ''top'' None [] (Some 8),
       ex_item ''t5'' ''top'' None [] None] = Inr (Some r) \<and>
      first_highest spec_warmth
        [ex_item ''t1'' ''top'' None [] (Some 2), ex_item ''t2'' ''top'' None [] (Some 8),
         ex_item ''t3'' ''top'' None [] (Some 5), ex_item ''t4'' ''top'' None [] (Some 8),
         ex_item ''t5'' ''top'' None [] None] r \<and>
      r = ex_item ''t2'' ''top'' None [] (Some 8)) \<and>
   spec_hot ex_lower (ex_req (Some ''zzz'') (Some ''WARM'')) \<and>
   (\<exists>r. pick_from ex_lower (ex_req (Some ''zzz'') (Some ''WARM''))
      [ex_item ''t1'' ''top'' (Some ''red'') [] (Some 2), ex_item ''t2'' ''top'' (Some ''red'') [] (Some 8),
       ex_item ''t5'' ''top'' (Some ''red'') [] None, ex_item ''t6'' ''top'' (Some ''red'') [] (Some 0)]
        = Inr (Some r) \<and>
      first_lowest spec_warmth
        [ex_item ''t1'' ''top'' (Some ''red'') [] (Some 2), ex_item ''t2'' ''top'' (Some ''red'') [] (Some 8),
         ex_item ''t5'' ''top'' (Some ''red'') [] None, ex_item ''t6'' ''top'' (Some ''red'') [] (Some 0)] r \<and>
      r = ex_item ''t5'' ''top'' (Some ''red'') [] None)"
proof -
  let ?b = "[ex_item ''t1'' ''top'' None [] (Some 2), ex_item ''t2'' ''top'' None [] (Some 8),
    ex_item ''t3'' ''top'' None [] (Some 5), ex_item ''t4'' ''top'' None [] (Some 8),
    ex_item ''t5'' ''top'' None [] None]"
  let ?req = "ex_req None (Some ''Cold'')"
  let ?b2 = "[ex_item ''t1'' ''top'' (Some ''red'') [] (Some 2), ex_item ''t2'' ''top'' (Some ''red'') [] (Some 8),
       ex_item ''t5'' ''top'' (Some ''red'') [] None, ex_item ''t6'' ''top'' (Some ''red'') [] (Some 0)]"
  let ?req2 = "ex_req (Some ''zzz'') (Some ''WARM'')"
  have ne: "?b \<noteq> []" and ne2: "?b2 \<noteq> []" by simp_all
  have nm: "\<forall>m. mood ?req = Some m \<and> m \<noteq> [] \<longrightarrow> (\<forall>i \<in> set ?b. \<not> spec_mood_match ex_lower m i)"
    by (simp add: ex_req_def)
  have nm2: "\<forall>m. mood ?req2 = Some m \<and> m \<noteq> [] \<longrightarrow> (\<forall>i \<in> set ?b2. \<not> spec_mood_match ex_lower m i)"
    by (simp add: ev)
  have cold: "spec_cold ex_lower ?req" and hot: "spec_hot ex_lower ?req2" by (simp_all add: ev)
  have p: "pick_from ex_lower ?req ?b = Inr (Some (ex_item ''t2'' ''top'' None [] (Some 8)))"
    by (simp add: ev pick_ev)
  have p2: "pick_from ex_lower ?req2 ?b2 = Inr (Some (ex_item ''t5'' ''top'' (Some ''red'') [] None))"
    by (simp add: ev pick_ev)
  from pick_from_weather[OF ne nm] cold p
  have 1: "\<exists>r. pick_from ex_lower ?req ?b = Inr (Some r) \<and> first_highest spec_warmth ?b r \<and>
      r = ex_item ''t2'' ''top'' None [] (Some 8)"
    by auto
  from pick_from_weather[OF ne2 nm2] hot p2
  have 2: "\<exists>r. pick_from ex_lower ?req2 ?b2 = Inr (Some r) \<and> first_lowest spec_warmth ?b2 r \<and>
      r = ex_item ''t5'' ''top'' (Some ''red'') [] None"
    by auto
  show ?thesis using ne cold hot 1 2 by blast
qed

text \<open>
  C10 (as amended). Whenever the mood is present and not the empty string, an item whose
  color is absent or empty, or which carries an empty tag, is a mood match. A bucket that
  holds such an item therefore has a first mood match, which is selected whatever the
  weather is; it is that item itself unless an item before it in the bucket matches the
  mood.
\<close>

theorem empty_color_is_mood_match:
  assumes "mood req = Some m" and "m \<noteq> []" and "i \<in> set b"
    and "color i = None \<or> color i = Some '''' \<or> '''' \<in> set (tags i)"
  shows "spec_mood_match lw m i \<and>
         (\<exists>r. find (spec_mood_match lw m) b = Some r \<and>
              (\<forall>w. pick_from lw (req\<lparr>weather := w\<rparr>) b = Inr (Some r))) \<and>
         (\<forall>pre post. b = pre @ i # post \<and> (\<forall>x \<in> set pre. \<not> spec_mood_match lw m x) \<longrightarrow>
              (\<forall>w. pick_from lw (req\<lparr>weather := w\<rparr>) b = Inr (Some i)))"
proof -
  from assms(4) have mm: "spec_mood_match lw m i"
    by (auto simp: spec_mood_match_def intro: bexI[of _ "''''"])
  with assms(3) have "find (spec_mood_match lw m) b \<noteq> None"
    by (auto simp: find_None_iff)
  then obtain r where r: "find (spec_mood_match lw m) b = Some r" by auto
  have hit: "pick_from lw (req\<lparr>weather := w\<rparr>) b = Inr (Some r')"
    if "find (spec_mood_match lw m) b = Some r'" for w r'
    using assms(1,2) that by (intro pick_from_mood_hit[where m = m]) simp_all
  have "pick_from lw (req\<lparr>weather := w\<rparr>) b = Inr (Some i)"
    if "b = pre @ i # post" "\<forall>x \<in> set pre. \<not> spec_mood_match lw m x" for pre post w
    using that mm by (intro hit) (simp add: find_first)
  with mm r hit show ?thesis by blast
qed

theorem empty_color_is_mood_match_witness:
  "mood (ex_req (Some ''cosy'') (Some ''hot'')) = Some ''cosy'' \<and> ''cosy'' \<noteq> [] \<and>
   ex_item ''t2'' ''top'' None [] (Some 8) \<in>
     set [ex_item ''t1'' ''top'' (Some ''red'') [] (Some 2), ex_item ''t2'' ''top'' None [] (Some 8),
          ex_item ''t3'' ''top'' (Some '''') [] (Some 1)] \<and>
   color (ex_item ''t2'' ''top'' None [] (Some 8)) = None \<and>
   \<not> spec_mood_match ex_lower ''cosy'' (ex_item ''t1'' ''top'' (Some ''red'') [] (Some 2)) \<and>
   spec_mood_match ex_lower ''cosy'' (ex_item ''t2'' ''top'' None [] (Some 8)) \<and>
   pick_from ex_lower (ex_req (Some ''cosy'') (Some ''hot''))
     [ex_item ''t1'' ''top'' (Some ''red'') [] (Some 2), ex_item ''t2'' ''top'' None [] (Some 8),
      ex_item ''t3'' ''top'' (Some '''') [] (Some 1)]
     = Inr (Some (ex_item ''t2'' ''top'' None [] (Some 8)))"
proof -
  let ?a = "ex_item ''t1'' ''top'' (Some ''red'') [] (Some 2)"
  let ?i = "ex_item ''t2'' ''top'' None [] (Some 8)"
  let ?c = "ex_item ''t3'' ''top'' (Some '''') [] (Some 1)"
  let ?req = "ex_req (Some ''cosy'') (Some ''hot'')"
  have h1: "mood ?req = Some ''cosy''" by (simp add: ex_req_def)
  have h2: "''cosy'' \<noteq> []" by simp
  have h3: "?i \<in> set [?a, ?i, ?c]" by simp
  have h4: "color ?i = None \<or> color ?i = Some '''' \<or> '''' \<in> set (tags ?i)" by (simp add: ex_item_def)
  have d: "[?a, ?i, ?c] = [?a] @ ?i # [?c]" by simp
  have n: "\<forall>x \<in> set [?a]. \<not> spec_mood_match ex_lower ''cosy'' x" by (simp add: ev)
  have w: "?req\<lparr>weather := Some ''hot''\<rparr> = ?req" by (simp add: ex_req_def)
  from empty_color_is_mood_match[OF h1 h2 h3 h4, where lw = ex_lower] d n
  have "spec_mood_match ex_lower ''cosy'' ?i \<and>
      pick_from ex_lower (?req\<lparr>weather := Some ''hot''\<rparr>) [?a, ?i, ?c] = Inr (Some ?i)"
    by blast
  then show ?thesis using h1 h3 n unfolding w by (simp add: ex_item_def)
qed

text \<open>
  Two inputs. With the mood \<open>""\<close> the item carrying an empty tag is a mood match, but the
  mood rule is skipped: the weather decides, and the result changes with it. With the mood
  \<open>"blue"\<close> the first item without a color is \<open>t2\<close>, but the blue item before it is a mood
  match too and is the one selected.
\<close>

theorem empty_color_is_mood_match_counterexample:
  "mood (ex_req (Some '''') (Some ''chilly'')) = Some '''' \<and>
   '''' \<in> set (tags (ex_item ''t1'' ''top'' (Some ''red'') [''''] (Some 3))) \<and>
   spec_mood_match ex_lower '''' (ex_item ''t1'' ''top'' (Some ''red'') [''''] (Some 3)) \<and>
   pick_from ex_lower (ex_req (Some '''') (Some ''chilly''))
     [ex_item ''t1'' ''top'' (Some ''red'') [''''] (Some 3), ex_item ''t2'' ''top'' (Some ''red'') [] (Some 9)]
     = Inr (Some (ex_item ''t2'' ''top'' (Some ''red'') [] (Some 9))) \<and>
   pick_from ex_lower (ex_req (Some '''') None)
     [ex_item ''t1'' ''top'' (Some ''red'') [''''] (Some 3), ex_item ''t2'' ''top'' (Some ''red'') [] (Some 9)]
     = Inr (Some (ex_item ''t1'' ''top'' (Some ''red'') [''''] (Some 3))) \<and>
   mood (ex_req (Some ''blue'') None) = Some ''blue'' \<and>
   find (\<lambda>i. color i = None \<or> color i = Some '''' \<or> '''' \<in> set (tags i))
     [ex_item ''t1'' ''top'' (Some ''blue'') [] None, ex_item ''t2'' ''top'' None [] None]
     = Some (ex_item ''t2'' ''top'' None [] None) \<and>
   pick_from ex_lower (ex_req (Some ''blue'') None)
     [ex_item ''t1'' ''top'' (Some ''blue'') [] None, ex_item ''t2'' ''top'' None [] None]
     = Inr (Some (ex_item ''t1'' ''top'' (Some ''blue'') [] None)) \<and>
   ex_item ''t1'' ''top'' (Some ''blue'') [] None \<noteq> ex_item ''t2'' ''top'' None [] None"
  by (simp add: ev pick_ev)

text \<open>
  C3. If the wardrobe fetched for the owner has at least one item in the bucket top, bottom
  or footwear, \<open>generate_outfit\<close> succeeds and returns a non-empty selection (it does not
  fail with status 400, nor with any other error).
\<close>

theorem generate_outfit_succeeds:
  assumes "get_list (categorize lw (get_documents db (email req))) ''top'' \<noteq> [] \<or>
           get_list (categorize lw (get_documents db (email req))) ''bottom'' \<noteq> [] \<or>
           get_list (categorize lw (get_documents db (email req))) ''footwear'' \<noteq> []"
  shows "\<exists>resp db'. generate_outfit lw py_str db req = (Inr resp, db') \<and> resp_items resp \<noteq> []"
proof -
  let ?items = "get_documents db (email req)"
  from assms have sel: "spec_selection lw req ?items \<noteq> []"
    by (auto simp: get_list_categorize spec_selection_Nil_iff)
  from assms have "?items \<noteq> []"
    by (auto simp: get_list_categorize spec_bucket_def)
  with sel show ?thesis by (simp add: generate_outfit_eq Let_def)
qed

theorem generate_outfit_succeeds_witness:
  "get_list (categorize ex_lower (get_documents (ex_db ex_wardrobe) (email (ex_req None None)))) ''footwear''
     = [ex_item ''f1'' ''FOOTWEAR'' None [''sport''] (Some 3)] \<and>
   (\<exists>resp db'. generate_outfit ex_lower ex_str (ex_db ex_wardrobe) (ex_req None None) = (Inr resp, db') \<and>
      resp_items resp \<noteq> [])"
proof -
  have b: "get_list (categorize ex_lower (get_documents (ex_db ex_wardrobe) (email (ex_req None None)))) ''footwear''
     = [ex_item ''f1'' ''FOOTWEAR'' None [''sport''] (Some 3)]"
    by (simp add: get_list_categorize gen_ev ev)
  then have "get_list (categorize ex_lower (get_documents (ex_db ex_wardrobe) (email (ex_req None None)))) ''top'' \<noteq> [] \<or>
           get_list (categorize ex_lower (get_documents (ex_db ex_wardrobe) (email (ex_req None None)))) ''bottom'' \<noteq> [] \<or>
           get_list (categorize ex_lower (get_documents (ex_db ex_wardrobe) (email (ex_req None None)))) ''footwear'' \<noteq> []"
    by simp
  from generate_outfit_succeeds[OF this, where py_str = ex_str] b show ?thesis by simp
qed

text \<open>
  C4. If the fetched item collection is empty, \<open>generate_outfit\<close> fails with status 404,
  detail "No wardrobe items found"; nothing is selected and the store is unchanged.
\<close>

theorem generate_outfit_not_found:
  assumes "get_documents db (email req) = []"
  shows "generate_outfit lw py_str db req = (Inl (HTTPException 404 ''No wardrobe items found''), db)"
  using assms by (simp add: generate_outfit_def)

theorem generate_outfit_not_found_witness:
  "get_documents (ex_db ex_wardrobe) (email ((ex_req None (Some ''cold''))\<lparr>email := ''bob@example.org''\<rparr>)) = [] \<and>
   generate_outfit ex_lower ex_str (ex_db ex_wardrobe) ((ex_req None (Some ''cold''))\<lparr>email := ''bob@example.org''\<rparr>)
     = (Inl (HTTPException 404 ''No wardrobe items found''), ex_db ex_wardrobe)"
proof -
  have e: "get_documents (ex_db ex_wardrobe) (email ((ex_req None (Some ''cold''))\<lparr>email := ''bob@example.org''\<rparr>)) = []"
    by (simp add: gen_ev ev)
  from generate_outfit_not_found[OF e, where py_str = ex_str and lw = ex_lower] e show ?thesis by simp
qed

text \<open>
  C5. On a non-empty wardrobe whose assembled selection is empty, for instance when the
  buckets top, bottom and footwear are empty and the weather is not cold or chilly,
  \<open>generate_outfit\<close> fails with status 400, detail "Could not compose an outfit from
  wardrobe".
\<close>

theorem generate_outfit_invalid_state:
  assumes "get_documents db (email req) \<noteq> []"
    and "assemble lw py_str req (categorize lw (get_documents db (email req))) = Inr [] \<or>
         (get_list (categorize lw (get_documents db (email req))) ''top'' = [] \<and>
          get_list (categorize lw (get_documents db (email req))) ''bottom'' = [] \<and>
          get_list (categorize lw (get_documents db (email req))) ''footwear'' = [] \<and>
          \<not> spec_cold lw req)"
  shows "generate_outfit lw py_str db req =
           (Inl (HTTPException 400 ''Could not compose an outfit from wardrobe''), db)"
proof -
  from assms(2) have "assemble lw py_str req (categorize lw (get_documents db (email req))) = Inr []"
    by (auto simp: assemble_eq get_list_categorize spec_selection_Nil_iff)
  with assms(1) show ?thesis by (simp add: generate_outfit_def)
qed

theorem generate_outfit_invalid_state_witness:
  "get_documents (ex_db [ex_item ''a1'' ''accessory'' None [] None, ex_item ''o1'' ''outerwear'' None [] (Some 9)])
      (email (ex_req (Some ''bold'') (Some ''hot''))) \<noteq> [] \<and>
   assemble ex_lower ex_str (ex_req (Some ''bold'') (Some ''hot''))
     (categorize ex_lower (get_documents (ex_db [ex_item ''a1'' ''accessory'' None [] None, ex_item ''o1'' ''outerwear'' None [] (Some 9)])
        (email (ex_req (Some ''bold'') (Some ''hot''))))) = Inr [] \<and>
   generate_outfit ex_lower ex_str (ex_db [ex_item ''a1'' ''accessory'' None [] None, ex_item ''o1'' ''outerwear'' None [] (Some 9)])
      (ex_req (Some ''bold'') (Some ''hot''))
    = (Inl (HTTPException 400 ''Could not compose an outfit from wardrobe''),
       ex_db [ex_item ''a1'' ''accessory'' None [] None, ex_item ''o1'' ''outerwear'' None [] (Some 9)])"
proof -
  let ?db = "ex_db [ex_item ''a1'' ''accessory'' None [] None, ex_item ''o1'' ''outerwear'' None [] (Some 9)]"
  let ?req = "ex_req (Some ''bold'') (Some ''hot'')"
  have ne: "get_documents ?db (email ?req) \<noteq> []"
    by (simp add: gen_ev ev)
  have a: "assemble ex_lower ex_str ?req (categorize ex_lower (get_documents ?db (email ?req))) = Inr []"
    by (simp add: assemble_eq gen_ev ev pick_ev)
  from generate_outfit_invalid_state[OF ne disjI1, OF a] ne a show ?thesis by simp
qed

text \<open>
  C6. The selection consists of the snapshots of the picks of the buckets top, bottom and
  footwear, in this order, an empty bucket contributing nothing and a non-empty one its
  pick; the pick of the outerwear bucket is appended exactly when the weather lower-cases
  to cold or chilly, and otherwise no item of category outerwear is in the selection.
\<close>

theorem selection_order:
  "assemble lw py_str req (categorize lw items) =
     Inr (map (\<lambda>d. snapshot py_str (doc_items d)) (spec_selection lw req items)) \<and>
   (\<forall>resp db'. generate_outfit lw py_str db req = (Inr resp, db') \<longrightarrow>
      resp_items resp =
        map (\<lambda>d. snapshot py_str (doc_items d)) (spec_selection lw req (get_documents db (email req)))) \<and>
   (\<forall>c. get_list (categorize lw items) c = spec_bucket lw items c \<and>
        (spec_slot lw req items c = [] \<longleftrightarrow> spec_bucket lw items c = [])) \<and>
   (\<forall>c. \<forall>d \<in> set (spec_slot lw req items c). d \<in> set items \<and> cat_of lw d = c) \<and>
   (\<not> spec_cold lw req \<longrightarrow> (\<forall>d \<in> set (spec_selection lw req items). cat_of lw d \<noteq> ''outerwear''))"
proof (intro conjI allI impI ballI)
  show "assemble lw py_str req (categorize lw items) =
     Inr (map (\<lambda>d. snapshot py_str (doc_items d)) (spec_selection lw req items))"
    by (rule assemble_eq)
next
  fix resp db'
  assume "generate_outfit lw py_str db req = (Inr resp, db')"
  then show "resp_items resp =
        map (\<lambda>d. snapshot py_str (doc_items d)) (spec_selection lw req (get_documents db (email req)))"
    by (auto simp: generate_outfit_eq Let_def split: if_splits)
next
  fix c
  show "get_list (categorize lw items) c = spec_bucket lw items c" by (rule get_list_categorize)
  show "spec_slot lw req items c = [] \<longleftrightarrow> spec_bucket lw items c = []" by (rule spec_slot_Nil_iff)
next
  fix c d
  assume "d \<in> set (spec_slot lw req items c)"
  then show "d \<in> set items" "cat_of lw d = c" by (auto dest: spec_slot_member)
next
  fix d
  assume "\<not> spec_cold lw req" "d \<in> set (spec_selection lw req items)"
  then show "cat_of lw d \<noteq> ''outerwear''"
    by (auto simp: spec_selection_def dest: spec_slot_member)
qed

theorem selection_order_witness:
  "\<not> spec_cold ex_lower (ex_req (Some ''Feeling BLUE'') (Some ''rainy'')) \<and>
   spec_selection ex_lower (ex_req (Some ''Feeling BLUE'') (Some ''rainy'')) ex_wardrobe =
     [ex_item ''t2'' ''top'' (Some ''blue'') [''formal''] (Some 8),
      ex_item ''b1'' ''bottom'' (Some ''black'') [] None,
      ex_item ''f1'' ''FOOTWEAR'' None [''sport''] (Some 3)] \<and>
   spec_selection ex_lower (ex_req None (Some ''Chilly'')) ex_wardrobe =
     [ex_item ''t2'' ''top'' (Some ''blue'') [''formal''] (Some 8),
      ex_item ''b1'' ''bottom'' (Some ''black'') [] None,
      ex_item ''f1'' ''FOOTWEAR'' None [''sport''] (Some 3),
      ex_item ''o1'' ''Outerwear'' (Some ''grey'') [] (Some 9)] \<and>
   assemble ex_lower ex_str (ex_req (Some ''Feeling BLUE'') (Some ''rainy'')) (categorize ex_lower ex_wardrobe) =
     Inr (map (\<lambda>d. snapshot ex_str (doc_items d))
       [ex_item ''t2'' ''top'' (Some ''blue'') [''formal''] (Some 8),
        ex_item ''b1'' ''bottom'' (Some ''black'') [] None,
        ex_item ''f1'' ''FOOTWEAR'' None [''sport''] (Some 3)]) \<and>
   ''outerwear'' \<notin>
     set (map (cat_of ex_lower) (spec_selection ex_lower (ex_req (Some ''Feeling BLUE'') (Some ''rainy'')) ex_wardrobe)) \<and>
   resp_items (projr (fst (generate_outfit ex_lower ex_str (ex_db ex_wardrobe) (ex_req None (Some ''Chilly''))))) =
     map (\<lambda>d. snapshot ex_str (doc_items d))
       [ex_item ''t2'' ''top'' (Some ''blue'') [''formal''] (Some 8),
        ex_item ''b1'' ''bottom'' (Some ''black'') [] None,
        ex_item ''f1'' ''FOOTWEAR'' None [''sport''] (Some 3),
        ex_item ''o1'' ''Outerwear'' (Some ''grey'') [] (Some 9)]"
proof -
  let ?r1 = "ex_req (Some ''Feeling BLUE'') (Some ''rainy'')"
  let ?r2 = "ex_req None (Some ''Chilly'')"
  have nc: "\<not> spec_cold ex_lower ?r1" by (simp add: ev)
  have s1: "spec_selection ex_lower ?r1 ex_wardrobe =
     [ex_item ''t2'' ''top'' (Some ''blue'') [''formal''] (Some 8),
      ex_item ''b1'' ''bottom'' (Some ''black'') [] None,
      ex_item ''f1'' ''FOOTWEAR'' None [''sport''] (Some 3)]"
    by (simp add: spec_selection_def spec_slot_def spec_bucket_def cat_of_def ex_wardrobe_def ev pick_ev)
  have s2: "spec_selection ex_lower ?r2 ex_wardrobe =
     [ex_item ''t2'' ''top'' (Some ''blue'') [''formal''] (Some 8),
      ex_item ''b1'' ''bottom'' (Some ''black'') [] None,
      ex_item ''f1'' ''FOOTWEAR'' None [''sport''] (Some 3),
      ex_item ''o1'' ''Outerwear'' (Some ''grey'') [] (Some 9)]"
    by (simp add: spec_selection_def spec_slot_def spec_bucket_def cat_of_def ex_wardrobe_def ev pick_ev)
  have g: "get_documents (ex_db ex_wardrobe) (email ?r2) = ex_wardrobe"
    by (simp add: get_documents_def ex_db_def ex_req_def ex_wardrobe_def ex_item_def)
  have ne: "ex_wardrobe \<noteq> []" by (simp add: ex_wardrobe_def)
  obtain resp db' where r: "generate_outfit ex_lower ex_str (ex_db ex_wardrobe) ?r2 = (Inr resp, db')"
    by (simp add: generate_outfit_eq g s2 ne Let_def)
  note so1 = selection_order[where lw = ex_lower and py_str = ex_str and req = "?r1" and items = ex_wardrobe and db = "ex_db ex_wardrobe"]
  note so2 = selection_order[where lw = ex_lower and py_str = ex_str and req = "?r2" and items = ex_wardrobe and db = "ex_db ex_wardrobe"]
  from so1 have a: "assemble ex_lower ex_str ?r1 (categorize ex_lower ex_wardrobe) =
      Inr (map (\<lambda>d. snapshot ex_str (doc_items d)) (spec_selection ex_lower ?r1 ex_wardrobe))"
    by blast
  from so1 nc have "\<forall>d \<in> set (spec_selection ex_lower ?r1 ex_wardrobe). cat_of ex_lower d \<noteq> ''outerwear''"
    by blast
  then have o: "''outerwear'' \<notin> set (map (cat_of ex_lower) (spec_selection ex_lower ?r1 ex_wardrobe))"
    by auto
  from so2 r have "resp_items resp =
      map (\<lambda>d. snapshot ex_str (doc_items d)) (spec_selection ex_lower ?r2 (get_documents (ex_db ex_wardrobe) (email ?r2)))"
    by blast
  then have i: "resp_items (projr (fst (generate_outfit ex_lower ex_str (ex_db ex_wardrobe) ?r2))) =
      map (\<lambda>d. snapshot ex_str (doc_items d)) (spec_selection ex_lower ?r2 ex_wardrobe)"
    by (simp add: r g)
  show ?thesis using nc a o i s1 s2 by simp
qed

text \<open>
  C7. On every failure the store is left as it was. On success exactly one outfit record is
  appended to the outfit collection; it holds the returned, non-empty selection, and the
  wardrobe collection is unchanged.
\<close>

theorem persists_once_after_success:
  "(\<forall>e db'. generate_outfit lw py_str db req = (Inl e, db') \<longrightarrow> db' = db) \<and>
   (\<forall>resp db'. generate_outfit lw py_str db req = (Inr resp, db') \<longrightarrow>
      resp_items resp \<noteq> [] \<and> wardrobeitem db' = wardrobeitem db \<and>
      (\<exists>doc. outfit db' = outfit db @ [doc] \<and> outfit_items doc = resp_items resp \<and>
             outfit_title doc = resp_title resp \<and> outfit_owner_email doc = email req \<and>
             outfit_mood doc = mood req \<and> outfit_weather doc = weather req \<and>
             outfit_event doc = event req))"
  by (auto simp: generate_outfit_eq Let_def split: if_splits)

theorem persists_once_after_success_witness:
  "generate_outfit ex_lower ex_str (ex_db [ex_item ''a1'' ''accessory'' None [] None]) (ex_req None None) =
     (Inl (HTTPException 400 ''Could not compose an outfit from wardrobe''),
      ex_db [ex_item ''a1'' ''accessory'' None [] None]) \<and>
   snd (generate_outfit ex_lower ex_str (ex_db [ex_item ''a1'' ''accessory'' None [] None]) (ex_req None None)) =
     ex_db [ex_item ''a1'' ''accessory'' None [] None] \<and>
   (\<exists>resp db'. generate_outfit ex_lower ex_str (ex_db [ex_item ''t1'' ''top'' None [] None]) (ex_req None None) =
        (Inr resp, db') \<and>
      length (outfit db') = 1 \<and> resp_items resp \<noteq> [] \<and>
      (\<exists>doc. outfit db' = outfit (ex_db [ex_item ''t1'' ''top'' None [] None]) @ [doc] \<and>
             outfit_items doc = resp_items resp))"
proof -
  let ?db1 = "ex_db [ex_item ''a1'' ''accessory'' None [] None]"
  let ?db2 = "ex_db [ex_item ''t1'' ''top'' None [] None]"
  let ?req = "ex_req None None"
  have f: "generate_outfit ex_lower ex_str ?db1 ?req =
     (Inl (HTTPException 400 ''Could not compose an outfit from wardrobe''), ?db1)"
    by (simp add: gen_ev ev pick_ev Let_def)
  obtain resp db' where r: "generate_outfit ex_lower ex_str ?db2 ?req = (Inr resp, db')"
    by (simp add: gen_ev ev pick_ev Let_def)
  from persists_once_after_success[where lw = ex_lower and py_str = ex_str and db = "?db1" and req = "?req"] f
  have 1: "snd (generate_outfit ex_lower ex_str ?db1 ?req) = ?db1" by simp
  from persists_once_after_success[where lw = ex_lower and py_str = ex_str and db = "?db2" and req = "?req"] r
  have 2: "resp_items resp \<noteq> [] \<and>
      (\<exists>doc. outfit db' = outfit ?db2 @ [doc] \<and> outfit_items doc = resp_items resp)"
    by blast
  then have 3: "length (outfit db') = 1" by (auto simp: ex_db_def)
  show ?thesis using f 1 2 3 r by blast
qed

text \<open>
  C8. On success every snapshot of the response, which is also the item list of the
  persisted outfit record, agrees with the selected item on every attribute other than
  \<^verbatim>\<open>_id\<close>, and has no attribute \<^verbatim>\<open>_id\<close>.
\<close>

theorem snapshots_strip_id:
  assumes "generate_outfit lw py_str db req = (Inr resp, db')"
  shows "list_all2 spec_snapshot_of (spec_selection lw req (get_documents db (email req))) (resp_items resp) \<and>
         (\<forall>s \<in> set (resp_items resp). ''_id'' \<notin> fst ` set s) \<and>
         (\<exists>doc. outfit db' = outfit db @ [doc] \<and> outfit_items doc = resp_items resp)"
proof -
  from assms have ri: "resp_items resp =
      map (\<lambda>d. snapshot py_str (doc_items d)) (spec_selection lw req (get_documents db (email req)))"
    and st: "\<exists>doc. outfit db' = outfit db @ [doc] \<and> outfit_items doc = resp_items resp"
    by (auto simp: generate_outfit_eq Let_def split: if_splits)
  have "\<forall>s \<in> set (resp_items resp). ''_id'' \<notin> fst ` set s"
    unfolding ri by (auto simp: snapshot_filter)
  with ri st show ?thesis by (simp add: list_all2_map_snapshot)
qed

theorem snapshots_strip_id_witness:
  "generate_outfit ex_lower ex_str (ex_db [ex_item ''t1'' ''top'' (Some ''red'') [''casual''] (Some 4)]) (ex_req None None) =
     (Inr \<lparr>resp_id = 0,
           resp_items = [[(''owner_email'', PStr ''ann@example.org''), (''name'', PStr ''t1''),
             (''category'', PStr ''top''), (''color'', PStr ''red''), (''size'', PNone),
             (''image_url'', PNone), (''brand'', PNone), (''price'', PNone),
             (''tags'', PList [PStr ''casual'']), (''warmth'', PInt 4)]],
           resp_title = ''Auto outfit - style / weather''\<rparr>,
      \<lparr>wardrobeitem = [ex_item ''t1'' ''top'' (Some ''red'') [''casual''] (Some 4)],
       outfit = [\<lparr>outfit_owner_email = ''ann@example.org'', outfit_title = ''Auto outfit - style / weather'',
          outfit_items = [[(''owner_email'', PStr ''ann@example.org''), (''name'', PStr ''t1''),
             (''category'', PStr ''top''), (''color'', PStr ''red''), (''size'', PNone),
             (''image_url'', PNone), (''brand'', PNone), (''price'', PNone),
             (''tags'', PList [PStr ''casual'']), (''warmth'', PInt 4)]],
          outfit_mood = None, outfit_weather = None, outfit_event = None\<rparr>]\<rparr>) \<and>
   list_all2 spec_snapshot_of [ex_item ''t1'' ''top'' (Some ''red'') [''casual''] (Some 4)]
     [[(''owner_email'', PStr ''ann@example.org''), (''name'', PStr ''t1''),
       (''category'', PStr ''top''), (''color'', PStr ''red''), (''size'', PNone),
       (''image_url'', PNone), (''brand'', PNone), (''price'', PNone),
       (''tags'', PList [PStr ''casual'']), (''warmth'', PInt 4)]]"
proof -
  let ?t = "ex_item ''t1'' ''top'' (Some ''red'') [''casual''] (Some 4)"
  let ?s = "[(''owner_email'', PStr ''ann@example.org''), (''name'', PStr ''t1''),
       (''category'', PStr ''top''), (''color'', PStr ''red''), (''size'', PNone),
       (''image_url'', PNone), (''brand'', PNone), (''price'', PNone),
       (''tags'', PList [PStr ''casual'']), (''warmth'', PInt 4)]"
  let ?resp = "\<lparr>resp_id = 0, resp_items = [?s], resp_title = ''Auto outfit - style / weather''\<rparr>"
  let ?db' = "\<lparr>wardrobeitem = [?t],
       outfit = [\<lparr>outfit_owner_email = ''ann@example.org'', outfit_title = ''Auto outfit - style / weather'',
          outfit_items = [?s], outfit_mood = None, outfit_weather = None, outfit_event = None\<rparr>]\<rparr>"
  have g: "generate_outfit ex_lower ex_str (ex_db [?t]) (ex_req None None) = (Inr ?resp, ?db')"
    by (simp add: gen_ev ev pick_ev Let_def)
  have s: "spec_selection ex_lower (ex_req None None) (get_documents (ex_db [?t]) (email (ex_req None None))) = [?t]"
    by (simp add: gen_ev ev pick_ev)
  from snapshots_strip_id[OF g] have "list_all2 spec_snapshot_of [?t] [?s]"
    unfolding s by simp
  with g show ?thesis by simp
qed

text \<open>
  C9 (as amended). On success the title is "Auto outfit - ", the mood (or "style" when the
  mood is absent or empty), " / ", and the weather (or "weather" when the weather is absent
  or empty); mood "bold" without weather gives "Auto outfit - bold / weather".
\<close>

theorem title_format:
  assumes "generate_outfit lw py_str db req = (Inr resp, db')"
  shows "resp_title resp =
           ''Auto outfit - '' @
           (case mood req of None \<Rightarrow> ''style'' | Some m \<Rightarrow> if m = [] then ''style'' else m) @
           '' / '' @
           (case weather req of None \<Rightarrow> ''weather'' | Some w \<Rightarrow> if w = [] then ''weather'' else w) \<and>
         (mood req = Some ''bold'' \<and> weather req = None \<longrightarrow>
            resp_title resp = ''Auto outfit - bold / weather'')"
proof -
  from assms have "resp_title resp = title_of req"
    by (auto simp: generate_outfit_eq Let_def split: if_splits)
  then show ?thesis by (auto simp: title_of_def str_or_def split: option.splits)
qed

theorem title_format_witness:
  "generate_outfit ex_lower ex_str (ex_db [ex_item ''t1'' ''top'' None [] None]) (ex_req (Some ''bold'') None) =
     (Inr \<lparr>resp_id = 0,
           resp_items = [snapshot ex_str (doc_items (ex_item ''t1'' ''top'' None [] None))],
           resp_title = ''Auto outfit - bold / weather''\<rparr>,
      snd (generate_outfit ex_lower ex_str (ex_db [ex_item ''t1'' ''top'' None [] None]) (ex_req (Some ''bold'') None)))"
proof -
  let ?db = "ex_db [ex_item ''t1'' ''top'' None [] None]"
  let ?req = "ex_req (Some ''bold'') None"
  obtain resp db' where g: "generate_outfit ex_lower ex_str ?db ?req = (Inr resp, db')"
    and i: "resp_id resp = 0"
      "resp_items resp = [snapshot ex_str (doc_items (ex_item ''t1'' ''top'' None [] None))]"
    by (simp add: generate_outfit_eq get_documents_def spec_selection_def spec_slot_def
        spec_bucket_def cat_of_def ev pick_ev Let_def)
  have m: "mood ?req = Some ''bold'' \<and> weather ?req = None" by (simp add: ex_req_def)
  from title_format[OF g] m have "resp_title resp = ''Auto outfit - bold / weather''" by blast
  with i have "resp = \<lparr>resp_id = 0,
           resp_items = [snapshot ex_str (doc_items (ex_item ''t1'' ''top'' None [] None))],
           resp_title = ''Auto outfit - bold / weather''\<rparr>"
    by simp
  with g show ?thesis by simp
qed

text \<open>
  A mood that is supplied as the empty string is replaced by "style" as well:
  \<^verbatim>\<open>req.mood or 'style'\<close>.
\<close>

theorem title_format_counterexample:
  "mood (ex_req (Some '''') None) = Some '''' \<and>
   map_sum id resp_title
     (fst (generate_outfit ex_lower ex_str (ex_db [ex_item ''t1'' ''top'' None [] None]) (ex_req (Some '''') None)))
     = Inr ''Auto outfit - style / weather'' \<and>
   ''Auto outfit - style / weather'' \<noteq> ''Auto outfit - '' @ '''' @ '' / '' @ ''weather''"
  by (simp add: gen_ev ev pick_ev Let_def)

end
